theory Spec2Isabelle
  imports Main "HOL-Library.Word"
begin

section \<open>The user routes of Node-msg (routes/users.js)\<close>

text \<open>
  The file \<^verbatim>\<open>src/routes/users.js\<close> holds the login strategy, the session rules and the
  signup route of a small Express application. The development below embeds the
  CommonJS module of that file (lines 63 to 196): the \<^verbatim>\<open>LocalStrategy\<close> verify callback,
  \<^verbatim>\<open>passport.serializeUser\<close>, \<^verbatim>\<open>passport.deserializeUser\<close> and the handler of
  \<^verbatim>\<open>POST /signup\<close> with its validation chain.

  Conventions of the embedding:
  \<^item> a JavaScript string is a \<open>string\<close>, read as its UTF-8 bytes; the Japanese
    messages of the source are written byte by byte;
  \<^item> a \<^verbatim>\<open>Buffer\<close> is a list of bytes;
  \<^item> a JavaScript number is an IEEE double, which is not modelled: the type of numbers
    is a type variable, and the conversion \<^verbatim>\<open>+age\<close> of line 190 is a parameter;
  \<^item> a record that was not found (\<^verbatim>\<open>null\<close>) is \<open>None\<close>;
  \<^item> a \<^verbatim>\<open>throw\<close> or a rejected promise is the left summand of a sum type;
  \<^item> the database behind the Prisma client and the entropy consumed by
    \<^verbatim>\<open>generateSalt\<close> are explicit state.
\<close>

subsection \<open>Data\<close>

type_synonym buffer = "8 word list"

text \<open>
  The values that the code can see thrown. \<open>ERR_CRYPTO_TIMING_SAFE_EQUAL_LENGTH\<close> is the
  \<^verbatim>\<open>RangeError\<close> of \<^verbatim>\<open>node:crypto\<close>; \<open>P2002\<close> is Prisma's unique constraint violation;
  \<open>Thrown m\<close> is any other exception, named by its message or its class.
\<close>

datatype error = ERR_CRYPTO_TIMING_SAFE_EQUAL_LENGTH | P2002 | Thrown string

text \<open>
  The value of a field of a request, as the parsers of forms, queries, cookies and
  headers give it: \<^verbatim>\<open>undefined\<close> when the field is not there, a string, or an array of
  strings when the field is given several times (\<^verbatim>\<open>age=1&age=2\<close>). The values that only a
  JSON body or a nested query can hold (numbers, objects) are outside this type.
\<close>

datatype jsvalue = Undefined | Str string | Arr "string list"

text \<open>
  A row of the user table, with the columns that the source reads and writes:
  \<^verbatim>\<open>id\<close>, \<^verbatim>\<open>name\<close>, \<^verbatim>\<open>password\<close>, \<^verbatim>\<open>salt\<close>, \<^verbatim>\<open>email\<close>, \<^verbatim>\<open>age\<close>. The column \<^verbatim>\<open>email\<close> holds
  what the request gave, the column \<^verbatim>\<open>age\<close> a number.
\<close>

record 'n user =
  user_id :: nat
  user_name :: string
  user_password :: buffer
  user_salt :: buffer
  user_email :: jsvalue
  user_age :: 'n

text \<open>The object that \<^verbatim>\<open>serializeUser\<close> stores in the session: \<^verbatim>\<open>{id, name}\<close>.\<close>

record principal =
  principal_id :: nat
  principal_name :: string

text \<open>
  The module \<^verbatim>\<open>../util/scrypt\<close> is required by the source and is not part of it; its two
  functions are parameters of the model. \<^verbatim>\<open>calcHash\<close> receives the password that its
  caller has (the verify callback a string, the signup handler the field of the body as
  it is) and may throw. \<^verbatim>\<open>generateSalt\<close> takes no argument in the source and reads the
  system's entropy: here it takes the number of salts drawn so far.
\<close>

record scrypt =
  calcHash :: "jsvalue \<Rightarrow> buffer \<Rightarrow> error + buffer"
  generateSalt :: "nat \<Rightarrow> buffer"

subsection \<open>The Prisma client\<close>

text \<open>The argument \<^verbatim>\<open>data\<close> of \<^verbatim>\<open>prisma.user.create\<close>, as line 185 to 191 build it.\<close>

record 'n create_data =
  data_name :: jsvalue
  data_password :: buffer
  data_salt :: buffer
  data_email :: jsvalue
  data_age :: 'n

text \<open>
  Modelled from the spec: the Prisma schema is not part of the sources. The user table is
  the list of its rows in the order of their creation; \<open>next_id\<close> is the identifier that
  the next created row receives (the spec: assigned at creation); \<open>fault\<close>, when set, is the
  exception that every query throws (the store cannot be reached). The column \<^verbatim>\<open>name\<close> is
  a unique string: the source queries it with \<^verbatim>\<open>findUnique\<close>, and the spec's data model
  says so. The types and ranges of the columns \<^verbatim>\<open>email\<close> and \<^verbatim>\<open>age\<close> are not known: \<open>schema\<close>
  says which records the validation of the generated client admits.
\<close>

record 'n prisma =
  users :: "'n user list"
  next_id :: nat
  fault :: "error option"
  schema :: "'n create_data \<Rightarrow> bool"

text \<open>\<^verbatim>\<open>prisma.user.findUnique({where: {name: username}})\<close>: the row or \<^verbatim>\<open>null\<close>.\<close>

definition findUnique :: "'n prisma \<Rightarrow> string \<Rightarrow> error + 'n user option" where
  "findUnique db username =
     (case fault db of
        Some e \<Rightarrow> Inl e
      | None \<Rightarrow> Inr (find (\<lambda>u. user_name u = username) (users db)))"

text \<open>The invariant of the table that the unique column maintains.\<close>

definition unique_names :: "'n prisma \<Rightarrow> bool" where
  "unique_names db = distinct (map user_name (users db))"

text \<open>
  Modelled from the spec: \<^verbatim>\<open>prisma.user.create({data})\<close> against the schema that is not
  part of the sources. The client refuses a record that the schema does not admit (a
  name that is not a string, or what \<open>schema\<close> excludes) before any query; then the store's
  fault is thrown, or \<open>P2002\<close> when the name is taken (the unique column); otherwise the
  row is appended under a new identifier.
\<close>

definition create :: "'n prisma \<Rightarrow> 'n create_data \<Rightarrow> error + 'n user \<times> 'n prisma" where
  "create db d =
     (case data_name d of
        Str name \<Rightarrow>
          if \<not> schema db d then Inl (Thrown ''PrismaClientValidationError'')
          else
            (case fault db of
               Some e \<Rightarrow> Inl e
             | None \<Rightarrow>
                 if find (\<lambda>u. user_name u = name) (users db) \<noteq> None then Inl P2002
                 else
                   let user = \<lparr>user_id = next_id db, user_name = name,
                               user_password = data_password d, user_salt = data_salt d,
                               user_email = data_email d, user_age = data_age d\<rparr>
                   in Inr (user, db\<lparr>users := users db @ [user],
                                    next_id := Suc (next_id db)\<rparr>))
      | _ \<Rightarrow> Inl (Thrown ''PrismaClientValidationError''))"

subsection \<open>The comparison of \<^verbatim>\<open>node:crypto\<close>\<close>

text \<open>
  \<^verbatim>\<open>timingSafeEqual(a, b)\<close> throws a \<^verbatim>\<open>RangeError\<close> when the two buffers differ in byte
  length, and otherwise says whether they hold the same bytes.
\<close>

definition timingSafeEqual :: "buffer \<Rightarrow> buffer \<Rightarrow> error + bool" where
  "timingSafeEqual a b =
     (if length a \<noteq> length b then Inl ERR_CRYPTO_TIMING_SAFE_EQUAL_LENGTH
      else Inr (a = b))"

subsection \<open>The verify callback of the local strategy\<close>

text \<open>
  The three ways in which the source calls \<^verbatim>\<open>cb\<close>: \<^verbatim>\<open>cb(e)\<close>,
  \<^verbatim>\<open>cb(null, false, {message: m})\<close> and \<^verbatim>\<open>cb(null, user)\<close>.
\<close>

datatype 'n cb_result = CbError error | CbFalse string | CbUser "'n user"

text \<open>The one message of both rejections (lines 82 and 89 of the source), in UTF-8.\<close>

definition credentials_message :: string where
  "credentials_message =
     [CHR 0xE3, CHR 0x83, CHR 0xA6, CHR 0xE3, CHR 0x83, CHR 0xBC, CHR 0xE3, CHR 0x82, CHR 0xB6,
      CHR 0xE5, CHR 0x90, CHR 0x8D, CHR 0xE3, CHR 0x81, CHR 0x8B, CHR 0xE3, CHR 0x83, CHR 0x91,
      CHR 0xE3, CHR 0x82, CHR 0xB9, CHR 0xE3, CHR 0x83, CHR 0xAF, CHR 0xE3, CHR 0x83, CHR 0xBC,
      CHR 0xE3, CHR 0x83, CHR 0x89, CHR 0xE3, CHR 0x81, CHR 0x8C, CHR 0xE9, CHR 0x81, CHR 0x95,
      CHR 0xE3, CHR 0x81, CHR 0x84, CHR 0xE3, CHR 0x81, CHR 0xBE, CHR 0xE3, CHR 0x81, CHR 0x99]"

text \<open>
  The body of the callback. Each \<open>Inl\<close> branch is the \<^verbatim>\<open>catch\<close> clause: whatever the
  lookup, the hash or the comparison throws goes to \<^verbatim>\<open>cb(e)\<close>.
\<close>

definition verify :: "scrypt \<Rightarrow> 'n prisma \<Rightarrow> string \<Rightarrow> string \<Rightarrow> 'n cb_result" where
  "verify scr db username password =
     (case findUnique db username of
        Inl e \<Rightarrow> CbError e
      | Inr None \<Rightarrow> CbFalse credentials_message
      | Inr (Some user) \<Rightarrow>
          (case calcHash scr (Str password) (user_salt user) of
             Inl e \<Rightarrow> CbError e
           | Inr hashedPassword \<Rightarrow>
               (case timingSafeEqual (user_password user) hashedPassword of
                  Inl e \<Rightarrow> CbError e
                | Inr equal \<Rightarrow>
                    if \<not> equal then CbFalse credentials_message
                    else CbUser user)))"

subsection \<open>The session rules\<close>

text \<open>
  Both rules call \<^verbatim>\<open>done(null, v)\<close> from \<^verbatim>\<open>process.nextTick\<close>: the result is the value
  given to \<^verbatim>\<open>done\<close>, and the error argument is always \<^verbatim>\<open>null\<close>. \<^verbatim>\<open>deserializeUser\<close> gives
  back whatever the session holds, of any type.
\<close>

definition serializeUser :: "'n user \<Rightarrow> error + principal" where
  "serializeUser user =
     Inr \<lparr>principal_id = user_id user, principal_name = user_name user\<rparr>"

definition deserializeUser :: "'a \<Rightarrow> error + 'a" where
  "deserializeUser user = Inr user"

subsection \<open>The validation chain of the signup route\<close>

text \<open>
  The parts of a request that \<^verbatim>\<open>check\<close> reads, each a lookup of a field's value:
  \<^verbatim>\<open>req.body\<close>, \<^verbatim>\<open>req.cookies\<close>, \<^verbatim>\<open>req.headers\<close>, \<^verbatim>\<open>req.params\<close> and \<^verbatim>\<open>req.query\<close>. The handler
  itself reads \<^verbatim>\<open>req.body\<close> only.
\<close>

record request =
  body :: "string \<Rightarrow> jsvalue"
  cookies :: "string \<Rightarrow> jsvalue"
  headers :: "string \<Rightarrow> jsvalue"
  params :: "string \<Rightarrow> jsvalue"
  query :: "string \<Rightarrow> jsvalue"

text \<open>
  An entry of \<^verbatim>\<open>result.array()\<close>: the field, the message given to \<^verbatim>\<open>check\<close>, the value
  that was refused and the part of the request that held it.
\<close>

record validation_error =
  error_field :: string
  error_msg :: string
  error_value :: jsvalue
  error_location :: string

text \<open>
  The instances of a field: its value in each part of the request, in the order in which
  \<^verbatim>\<open>check\<close> visits them.
\<close>

definition selectFields :: "request \<Rightarrow> string \<Rightarrow> (string \<times> jsvalue) list" where
  "selectFields req field =
     [(''body'', body req field), (''cookies'', cookies req field),
      (''headers'', headers req field), (''params'', params req field),
      (''query'', query req field)]"

text \<open>
  The instances that are validated: those that have a value, all of which must pass;
  when no part of the request has the field, the first instance, for the error report.
\<close>

definition getData :: "(string \<times> jsvalue) list \<Rightarrow> (string \<times> jsvalue) list" where
  "getData instances =
     (let withValue = filter (\<lambda>(location, v). v \<noteq> Undefined) instances
      in if withValue \<noteq> [] then withValue else take 1 instances)"

text \<open>A field that no part of the request has.\<close>

definition absent :: "request \<Rightarrow> string \<Rightarrow> bool" where
  "absent req field =
     (body req field = Undefined \<and> cookies req field = Undefined \<and>
      headers req field = Undefined \<and> params req field = Undefined \<and>
      query req field = Undefined)"

text \<open>
  A validator runs on each element of an array and on any other value as it is, and sees
  a string: \<^verbatim>\<open>undefined\<close> becomes the empty string.
\<close>

definition elements :: "jsvalue \<Rightarrow> jsvalue list" where
  "elements v = (case v of Arr xs \<Rightarrow> map Str xs | _ \<Rightarrow> [v])"

definition toString :: "jsvalue \<Rightarrow> string" where
  "toString v =
     (case v of
        Undefined \<Rightarrow> []
      | Str s \<Rightarrow> s
      | Arr xs \<Rightarrow> (case xs of [] \<Rightarrow> [] | x # _ \<Rightarrow> x))"

definition notEmpty :: "string \<Rightarrow> bool" where
  "notEmpty str = (str \<noteq> [])"

definition is_digit :: "char \<Rightarrow> bool" where
  "is_digit c = (48 \<le> (of_char c :: nat) \<and> (of_char c :: nat) \<le> 57)"

text \<open>\<^verbatim>\<open>isInt()\<close> without options: an optional sign, then one digit or more.\<close>

definition isInt :: "string \<Rightarrow> bool" where
  "isInt str =
     (let digits = (case str of
                      [] \<Rightarrow> []
                    | c # cs \<Rightarrow> if c = CHR ''-'' \<or> c = CHR ''+'' then cs else str)
      in digits \<noteq> [] \<and> list_all is_digit digits)"

definition name_message :: string where
  "name_message = ''NAME '' @
     [CHR 0xE3, CHR 0x81, CHR 0xAF, CHR 0xE5, CHR 0xBF, CHR 0x85, CHR 0xE3, CHR 0x81, CHR 0x9A,
      CHR 0xE5, CHR 0x85, CHR 0xA5, CHR 0xE5, CHR 0x8A, CHR 0x9B, CHR 0xE3, CHR 0x81, CHR 0x97,
      CHR 0xE3, CHR 0x81, CHR 0xA6, CHR 0xE3, CHR 0x81, CHR 0x8F, CHR 0xE3, CHR 0x81, CHR 0xA0,
      CHR 0xE3, CHR 0x81, CHR 0x95, CHR 0xE3, CHR 0x81, CHR 0x84, CHR 0xE3, CHR 0x80, CHR 0x82]"

definition password_message :: string where
  "password_message = ''PASSWORD '' @
     [CHR 0xE3, CHR 0x81, CHR 0xAF, CHR 0xE5, CHR 0xBF, CHR 0x85, CHR 0xE3, CHR 0x81, CHR 0x9A,
      CHR 0xE5, CHR 0x85, CHR 0xA5, CHR 0xE5, CHR 0x8A, CHR 0x9B, CHR 0xE3, CHR 0x81, CHR 0x97,
      CHR 0xE3, CHR 0x81, CHR 0xA6, CHR 0xE3, CHR 0x81, CHR 0x8F, CHR 0xE3, CHR 0x81, CHR 0xA0,
      CHR 0xE3, CHR 0x81, CHR 0x95, CHR 0xE3, CHR 0x81, CHR 0x84, CHR 0xE3, CHR 0x80, CHR 0x82]"

definition email_message :: string where
  "email_message = ''EMAIL '' @
     [CHR 0xE3, CHR 0x81, CHR 0xAF, CHR 0xE3, CHR 0x83, CHR 0xA1, CHR 0xE3, CHR 0x83, CHR 0xBC,
      CHR 0xE3, CHR 0x83, CHR 0xAB, CHR 0xE3, CHR 0x82, CHR 0xA2, CHR 0xE3, CHR 0x83, CHR 0x89,
      CHR 0xE3, CHR 0x83, CHR 0xAC, CHR 0xE3, CHR 0x82, CHR 0xB9, CHR 0xE3, CHR 0x82, CHR 0x92,
      CHR 0xE5, CHR 0x85, CHR 0xA5, CHR 0xE5, CHR 0x8A, CHR 0x9B, CHR 0xE3, CHR 0x81, CHR 0x97,
      CHR 0xE3, CHR 0x81, CHR 0xA6, CHR 0xE3, CHR 0x81, CHR 0x8F, CHR 0xE3, CHR 0x81, CHR 0xA0,
      CHR 0xE3, CHR 0x81, CHR 0x95, CHR 0xE3, CHR 0x81, CHR 0x84, CHR 0xE3, CHR 0x80, CHR 0x82]"

definition age_message :: string where
  "age_message = ''AGE '' @
     [CHR 0xE3, CHR 0x81, CHR 0xAF, CHR 0xE6, CHR 0x95, CHR 0xB4, CHR 0xE6, CHR 0x95, CHR 0xB0,
      CHR 0xE3, CHR 0x81, CHR 0xA7, CHR 0xE5, CHR 0x85, CHR 0xA5, CHR 0xE5, CHR 0x8A, CHR 0x9B,
      CHR 0xE3, CHR 0x81, CHR 0x97, CHR 0xE3, CHR 0x81, CHR 0xA6, CHR 0xE3, CHR 0x81, CHR 0x8F,
      CHR 0xE3, CHR 0x81, CHR 0xA0, CHR 0xE3, CHR 0x81, CHR 0x95, CHR 0xE3, CHR 0x81, CHR 0x84,
      CHR 0xE3, CHR 0x80, CHR 0x82]"

text \<open>The errors of one instance of a field under one validator.\<close>

definition run :: "string \<Rightarrow> string \<Rightarrow> (string \<Rightarrow> bool) \<Rightarrow> string \<times> jsvalue
    \<Rightarrow> validation_error list" where
  "run field message validator instance =
     concat (map (\<lambda>x. if validator (toString x) then []
                       else [\<lparr>error_field = field, error_msg = message, error_value = x,
                              error_location = fst instance\<rparr>])
                 (elements (snd instance)))"

text \<open>
  One link of the chain, \<^verbatim>\<open>check(field, msg)\<close> with one validator: the errors of the
  validated instances of the field.
\<close>

definition check :: "string \<Rightarrow> string \<Rightarrow> (string \<Rightarrow> bool) \<Rightarrow> request
    \<Rightarrow> validation_error list" where
  "check field message validator req =
     concat (map (run field message validator) (getData (selectFields req field)))"

text \<open>
  \<^verbatim>\<open>validationResult(req).array()\<close> after the four checks of lines 160 to 163, in their
  order. \<^verbatim>\<open>isEmail\<close> is the validator of the validator.js library, a parameter here.
\<close>

definition validationResult :: "(string \<Rightarrow> bool) \<Rightarrow> request \<Rightarrow> validation_error list" where
  "validationResult isEmail req =
     check ''name'' name_message notEmpty req @
     check ''password'' password_message notEmpty req @
     check ''email'' email_message isEmail req @
     check ''age'' age_message isInt req"

subsection \<open>The handler of \<^verbatim>\<open>POST /signup\<close>\<close>

text \<open>The object given to the template \<^verbatim>\<open>users/signup\<close> when the form is shown again.\<close>

record signup_view =
  view_title :: string
  view_name :: jsvalue
  view_email :: jsvalue
  view_age :: jsvalue
  view_messages :: "validation_error list"

text \<open>
  What the handler does with the request: \<^verbatim>\<open>res.render(view, data)\<close>,
  \<^verbatim>\<open>res.redirect(path)\<close>, or the rejection of its promise (the handler is \<^verbatim>\<open>async\<close> and
  catches nothing).
\<close>

datatype response = Render string signup_view | Redirect string | Rejected error

text \<open>The state that a request can change: the database and the entropy consumed.\<close>

record 'n world =
  store :: "'n prisma"
  salts_drawn :: nat

text \<open>
  The handler, after the chain. \<open>unary_plus\<close> is JavaScript's conversion of a value to a
  number, the \<^verbatim>\<open>+age\<close> of line 190. The fields are read from \<^verbatim>\<open>req.body\<close>, whichever part
  of the request the chain has validated.
\<close>

definition post_signup :: "scrypt \<Rightarrow> (string \<Rightarrow> bool) \<Rightarrow> (jsvalue \<Rightarrow> 'n) \<Rightarrow> request
    \<Rightarrow> 'n world \<Rightarrow> response \<times> 'n world" where
  "post_signup scr isEmail unary_plus req w =
     (let messages = validationResult isEmail req in
      if messages \<noteq> [] then
        (Render ''users/signup''
           \<lparr>view_title = ''Users/Signup'', view_name = body req ''name'',
            view_email = body req ''email'', view_age = body req ''age'',
            view_messages = messages\<rparr>, w)
      else
        let name = body req ''name''; password = body req ''password'';
            email = body req ''email''; age = body req ''age'';
            salt = generateSalt scr (salts_drawn w);
            w1 = w\<lparr>salts_drawn := Suc (salts_drawn w)\<rparr>
        in (case calcHash scr password salt of
              Inl e \<Rightarrow> (Rejected e, w1)
            | Inr hashedPassword \<Rightarrow>
                (case create (store w1)
                        \<lparr>data_name = name, data_password = hashedPassword,
                         data_salt = salt, data_email = email,
                         data_age = unary_plus age\<rparr> of
                   Inl e \<Rightarrow> (Rejected e, w1)
                 | Inr (user, db') \<Rightarrow>
                     (Redirect ''/users/login'', w1\<lparr>store := db'\<rparr>))))"

subsection \<open>Sample values\<close>

text \<open>
  Instances of the parameters, a small database and a request, on which the theorems
  below are evaluated. \<open>sample_scrypt\<close>, \<open>sample_isEmail\<close> and \<open>sample_unary_plus\<close> are
  stand-ins with the types of the real functions, not models of them; numbers are
  integers here.
\<close>

definition sample_scrypt :: scrypt where
  "sample_scrypt =
     \<lparr>calcHash = (\<lambda>password salt.
        case password of
          Str p \<Rightarrow> if p = [] then Inl (Thrown ''empty password'')
                   else Inr (salt @ [of_nat (length p)])
        | _ \<Rightarrow> Inl (Thrown ''TypeError'')),
      generateSalt = (\<lambda>n. [of_nat n, 7])\<rparr>"

definition sample_isEmail :: "string \<Rightarrow> bool" where
  "sample_isEmail str = (CHR ''@'' \<in> set str)"

definition sample_unary_plus :: "jsvalue \<Rightarrow> int" where
  "sample_unary_plus v =
     (case v of
        Str s \<Rightarrow> foldl (\<lambda>n c. 10 * n + (int (of_char c) - 48)) 0 s
      | _ \<Rightarrow> 0)"

definition alice :: "int user" where
  "alice = \<lparr>user_id = 1, user_name = ''alice'', user_password = [0, 7, 6],
            user_salt = [0, 7], user_email = Str ''alice@example.com'', user_age = 20\<rparr>"

definition bob :: "int user" where
  "bob = \<lparr>user_id = 2, user_name = ''bob'', user_password = [9, 9],
          user_salt = [1, 7], user_email = Str ''bob@example.com'', user_age = 31\<rparr>"

definition sample_db :: "int prisma" where
  "sample_db = \<lparr>users = [alice, bob], next_id = 3, fault = None, schema = (\<lambda>d. True)\<rparr>"

definition sample_world :: "int world" where
  "sample_world = \<lparr>store = sample_db, salts_drawn = 2\<rparr>"

definition no_fields :: "string \<Rightarrow> jsvalue" where
  "no_fields field = Undefined"

definition form :: "jsvalue \<Rightarrow> jsvalue \<Rightarrow> jsvalue \<Rightarrow> jsvalue \<Rightarrow> request" where
  "form name password email age =
     \<lparr>body = (\<lambda>field. if field = ''name'' then name
                      else if field = ''password'' then password
                      else if field = ''email'' then email
                      else if field = ''age'' then age
                      else Undefined),
      cookies = no_fields, headers = no_fields, params = no_fields, query = no_fields\<rparr>"

definition carol_form :: request where
  "carol_form = form (Str ''carol'') (Str ''secret'') (Str ''carol@example.com'') (Str ''42'')"

section \<open>Properties\<close>

subsection \<open>Lookup, comparison, creation and the chain\<close>

lemma find_by_name:
  "distinct (map user_name xs) \<Longrightarrow> u \<in> set xs \<Longrightarrow>
   find (\<lambda>v. user_name v = user_name u) xs = Some u"
proof (induction xs)
  case Nil
  then show ?case by simp
next
  case (Cons x xs)
  show ?case
  proof (cases "x = u")
    case True
    then show ?thesis by simp
  next
    case False
    with Cons.prems have in_tail: "u \<in> set xs" by simp
    from Cons.prems have "user_name x \<notin> user_name ` set xs" by simp
    with in_tail have "user_name x \<noteq> user_name u" by blast
    moreover from Cons.prems have "distinct (map user_name xs)" by simp
    ultimately show ?thesis using Cons.IH in_tail by simp
  qed
qed

lemma findUnique_stored:
  "fault db = None \<Longrightarrow> unique_names db \<Longrightarrow> u \<in> set (users db) \<Longrightarrow>
   findUnique db (user_name u) = Inr (Some u)"
  by (simp add: findUnique_def unique_names_def find_by_name)

lemma findUnique_fault: "fault db = Some e \<Longrightarrow> findUnique db username = Inl e"
  by (simp add: findUnique_def)

lemma findUnique_found_name:
  "findUnique db username = Inr (Some u) \<Longrightarrow> user_name u = username \<and> u \<in> set (users db)"
  by (auto simp: findUnique_def find_Some_iff split: option.splits)

lemma timingSafeEqual_same: "timingSafeEqual a a = Inr True"
  by (simp add: timingSafeEqual_def)

lemma timingSafeEqual_False_iff:
  "timingSafeEqual a b = Inr False \<longleftrightarrow> length a = length b \<and> a \<noteq> b"
  by (simp add: timingSafeEqual_def)

lemma timingSafeEqual_throws_iff:
  "timingSafeEqual a b = Inl e \<longleftrightarrow> length a \<noteq> length b \<and> e = ERR_CRYPTO_TIMING_SAFE_EQUAL_LENGTH"
  by (auto simp: timingSafeEqual_def)

lemma verify_found:
  "findUnique db username = Inr (Some u) \<Longrightarrow>
   verify scr db username password =
     (case calcHash scr (Str password) (user_salt u) of
        Inl e \<Rightarrow> CbError e
      | Inr h \<Rightarrow>
          if length (user_password u) \<noteq> length h then CbError ERR_CRYPTO_TIMING_SAFE_EQUAL_LENGTH
          else if user_password u = h then CbUser u
          else CbFalse credentials_message)"
  by (simp add: verify_def timingSafeEqual_def split: sum.splits)

lemma verify_not_found:
  "findUnique db username = Inr None \<Longrightarrow>
   verify scr db username password = CbFalse credentials_message"
  by (simp add: verify_def)

lemma verify_password:
  assumes "\<And>u. findUnique db username = Inr (Some u) \<Longrightarrow>
             calcHash scr (Str p1) (user_salt u) = calcHash scr (Str p2) (user_salt u)"
  shows "verify scr db username p1 = verify scr db username p2"
proof (cases "findUnique db username")
  case (Inl e)
  then show ?thesis by (simp add: verify_def)
next
  case (Inr found)
  show ?thesis
  proof (cases found)
    case None
    with Inr show ?thesis by (simp add: verify_not_found)
  next
    case (Some u)
    with Inr have found: "findUnique db username = Inr (Some u)" by simp
    from assms [OF found] show ?thesis by (simp add: verify_found [OF found])
  qed
qed

lemma create_result:
  assumes "create db d = Inr (u, db')"
  shows "users db' = users db @ [u] \<and> data_name d = Str (user_name u) \<and>
         user_password u = data_password d \<and> user_salt u = data_salt d \<and>
         fault db = None \<and> fault db' = None"
  using assms
  by (auto simp: create_def Let_def split: jsvalue.splits option.splits if_splits)

lemma create_unique_names:
  assumes "unique_names db" and "create db d = Inr (u, db')"
  shows "unique_names db'"
proof -
  from assms(2) have free: "find (\<lambda>v. user_name v = user_name u) (users db) = None"
    and db': "users db' = users db @ [u]"
    by (auto simp: create_def Let_def split: jsvalue.splits option.splits if_splits)
  from free have "user_name u \<notin> user_name ` set (users db)"
    by (force simp: find_None_iff)
  with assms(1) db' show ?thesis
    by (simp add: unique_names_def)
qed

lemma create_accepts:
  assumes "data_name d = Str name" and "schema db d" and "fault db = None"
    and "name \<notin> user_name ` set (users db)"
  shows "create db d =
     Inr (\<lparr>user_id = next_id db, user_name = name, user_password = data_password d,
           user_salt = data_salt d, user_email = data_email d, user_age = data_age d\<rparr>,
          db\<lparr>users := users db @
                 [\<lparr>user_id = next_id db, user_name = name,
                   user_password = data_password d, user_salt = data_salt d,
                   user_email = data_email d, user_age = data_age d\<rparr>],
             next_id := Suc (next_id db)\<rparr>)"
proof -
  from assms(4) have "find (\<lambda>u. user_name u = name) (users db) = None"
    by (force simp: find_None_iff)
  with assms(1-3) show ?thesis by (simp add: create_def Let_def)
qed

lemma run_undefined:
  "run field message validator (location, Undefined) =
     (if validator [] then []
      else [\<lparr>error_field = field, error_msg = message, error_value = Undefined,
             error_location = location\<rparr>])"
  by (simp add: run_def elements_def toString_def)

lemma run_string:
  "validator s \<Longrightarrow> run field message validator (location, Str s) = []"
  by (simp add: run_def elements_def toString_def)

lemma check_absent:
  assumes "absent req field"
  shows "check field message validator req =
     (if validator [] then []
      else [\<lparr>error_field = field, error_msg = message, error_value = Undefined,
             error_location = ''body''\<rparr>])"
  using assms
  by (simp add: check_def selectFields_def getData_def absent_def run_undefined)

lemma selectFields_other:
  "field \<noteq> field' \<Longrightarrow>
   selectFields (req\<lparr>body := (body req)(field' := v)\<rparr>) field = selectFields req field"
  by (simp add: selectFields_def)

lemma check_other:
  "field \<noteq> field' \<Longrightarrow>
   check field message validator (req\<lparr>body := (body req)(field' := v)\<rparr>) =
   check field message validator req"
  by (simp add: check_def selectFields_other)

lemma check_body_accepted:
  assumes "validator s"
  shows "check field message validator (req\<lparr>body := (body req)(field := Str s)\<rparr>) =
     concat (map (run field message validator)
       (filter (\<lambda>(location, v). v \<noteq> Undefined) (tl (selectFields req field))))"
  using assms
  by (simp add: check_def selectFields_def getData_def run_string Let_def)

lemma validationResult_password:
  assumes "p1 \<noteq> []" and "p2 \<noteq> []"
  shows "validationResult isEmail (req\<lparr>body := (body req)(''password'' := Str p1)\<rparr>) =
         validationResult isEmail (req\<lparr>body := (body req)(''password'' := Str p2)\<rparr>)"
  using assms
  by (simp add: validationResult_def check_other check_body_accepted notEmpty_def)

lemma isInt_Nil: "\<not> isInt []"
  by (simp add: isInt_def)

lemma post_signup_refused:
  "validationResult isEmail req \<noteq> [] \<Longrightarrow>
   post_signup scr isEmail unary_plus req w =
     (Render ''users/signup''
        \<lparr>view_title = ''Users/Signup'', view_name = body req ''name'',
         view_email = body req ''email'', view_age = body req ''age'',
         view_messages = validationResult isEmail req\<rparr>, w)"
  by (simp add: post_signup_def Let_def)

lemma post_signup_accepted:
  assumes "validationResult isEmail req = []"
  shows "post_signup scr isEmail unary_plus req w =
     (let salt = generateSalt scr (salts_drawn w);
          w1 = w\<lparr>salts_drawn := Suc (salts_drawn w)\<rparr>
      in case calcHash scr (body req ''password'') salt of
           Inl e \<Rightarrow> (Rejected e, w1)
         | Inr hashedPassword \<Rightarrow>
             (case create (store w1)
                     \<lparr>data_name = body req ''name'', data_password = hashedPassword,
                      data_salt = salt, data_email = body req ''email'',
                      data_age = unary_plus (body req ''age'')\<rparr> of
                Inl e \<Rightarrow> (Rejected e, w1)
              | Inr (user, db') \<Rightarrow> (Redirect ''/users/login'', w1\<lparr>store := db'\<rparr>)))"
  using assms by (simp add: post_signup_def Let_def)

lemma post_signup_store:
  assumes "post_signup scr isEmail unary_plus req w = (r, w')" and "\<And>path. r \<noteq> Redirect path"
  shows "store w' = store w"
proof (cases "validationResult isEmail req = []")
  case False
  with assms(1) show ?thesis by (simp add: post_signup_refused)
next
  case True
  with assms show ?thesis
    by (auto simp: post_signup_accepted Let_def split: sum.splits)
qed

lemma post_signup_registered:
  assumes "post_signup scr isEmail unary_plus req w = (Redirect path, w')"
  shows "\<exists>u. users (store w') = users (store w) @ [u] \<and> fault (store w') = None \<and>
           body req ''name'' = Str (user_name u) \<and>
           user_salt u = generateSalt scr (salts_drawn w) \<and>
           calcHash scr (body req ''password'') (user_salt u) = Inr (user_password u)"
proof -
  have accepted: "validationResult isEmail req = []"
  proof (rule ccontr)
    assume "validationResult isEmail req \<noteq> []"
    with assms show False by (simp add: post_signup_refused)
  qed
  let ?salt = "generateSalt scr (salts_drawn w)"
  from assms accepted obtain h u db' where
    h: "calcHash scr (body req ''password'') ?salt = Inr h"
    and c: "create (store w)
              \<lparr>data_name = body req ''name'', data_password = h, data_salt = ?salt,
               data_email = body req ''email'',
               data_age = unary_plus (body req ''age'')\<rparr> = Inr (u, db')"
    and w': "w' = w\<lparr>salts_drawn := Suc (salts_drawn w), store := db'\<rparr>"
    by (auto simp: post_signup_accepted Let_def split: sum.splits)
  from create_result [OF c]
  have "users db' = users (store w) @ [u]" and "fault db' = None"
    and "body req ''name'' = Str (user_name u)" and "user_password u = h"
    and "user_salt u = ?salt"
    by simp_all
  with h w' show ?thesis by simp
qed

lemma post_signup_unique_names:
  assumes "unique_names (store w)" and "post_signup scr isEmail unary_plus req w = (r, w')"
  shows "unique_names (store w')"
proof (cases "validationResult isEmail req = []")
  case False
  with assms show ?thesis by (simp add: post_signup_refused)
next
  case True
  with assms show ?thesis
    by (auto simp: post_signup_accepted Let_def split: sum.splits
        dest: create_unique_names [rotated])
qed

lemma post_signup_password:
  assumes "p1 \<noteq> []" and "p2 \<noteq> []"
    and "calcHash scr (Str p1) (generateSalt scr (salts_drawn w)) =
         calcHash scr (Str p2) (generateSalt scr (salts_drawn w))"
  shows "post_signup scr isEmail unary_plus (req\<lparr>body := (body req)(''password'' := Str p1)\<rparr>) w =
         post_signup scr isEmail unary_plus (req\<lparr>body := (body req)(''password'' := Str p2)\<rparr>) w"
proof -
  have "validationResult isEmail (req\<lparr>body := (body req)(''password'' := Str p1)\<rparr>) =
        validationResult isEmail (req\<lparr>body := (body req)(''password'' := Str p2)\<rparr>)"
    using assms(1,2) by (rule validationResult_password)
  then show ?thesis
    unfolding post_signup_def Let_def using assms(3)
    by (simp split: sum.split prod.split)
qed

text \<open>
  The spec's scenario of a signup followed by a login: in a table with unique names, the
  user that a signup has registered logs in with the submitted name and password.
\<close>

lemma signup_then_login:
  assumes "unique_names (store w)"
    and "post_signup scr isEmail unary_plus req w = (Redirect path, w')"
    and "body req ''name'' = Str name" and "body req ''password'' = Str password"
  shows "verify scr (store w') name password = CbUser (last (users (store w')))"
proof -
  from post_signup_registered [OF assms(2)] assms(3,4) obtain u where
    u: "users (store w') = users (store w) @ [u]" "fault (store w') = None"
       "user_name u = name"
       "calcHash scr (Str password) (user_salt u) = Inr (user_password u)"
    by auto
  from assms(1,2) have "unique_names (store w')" by (rule post_signup_unique_names)
  with u(1,2) have "findUnique (store w') (user_name u) = Inr (Some u)"
    by (simp add: findUnique_stored)
  with u show ?thesis by (simp add: verify_found)
qed

text \<open>The definitions that the evaluation of the chain on a sample request unfolds.\<close>

lemmas sample_chain =
  validationResult_def check_def selectFields_def getData_def run_def elements_def
  toString_def notEmpty_def isInt_def is_digit_def sample_isEmail_def form_def no_fields_def

text \<open>
  The chain validates a field wherever the request holds it, and each element of an
  array. A request with the age in the query only, or with the age given twice, passes
  the chain although \<^verbatim>\<open>req.body.age\<close> is \<^verbatim>\<open>undefined\<close> or an array; the handler then goes on
  to \<^verbatim>\<open>create\<close> with the conversion of that value.
\<close>

lemma chain_accepts_query_field:
  "validationResult sample_isEmail
     ((form (Str ''carol'') (Str ''secret'') (Str ''carol@example.com'') Undefined)
        \<lparr>query := no_fields(''age'' := Str ''42'')\<rparr>) = []"
  by (simp add: sample_chain)

lemma chain_accepts_repeated_field:
  "validationResult sample_isEmail
     (form (Str ''carol'') (Str ''secret'') (Str ''carol@example.com'') (Arr [''1'', ''2''])) = []"
  by (simp add: sample_chain)

lemma chain_refuses_one_element:
  "validationResult sample_isEmail
     (form (Str ''carol'') (Str ''secret'') (Str ''carol@example.com'') (Arr [''1'', ''x''])) =
     [\<lparr>error_field = ''age'', error_msg = age_message, error_value = Str ''x'',
       error_location = ''body''\<rparr>]"
  by (simp add: sample_chain)

subsection \<open>Login\<close>

text \<open>
  Claim C1. When the store answers, a stored record has the submitted username as its
  name, and \<^verbatim>\<open>calcHash\<close> of the submitted password and the record's salt is the record's
  stored digest, then the verify callback ends with \<^verbatim>\<open>cb(null, user)\<close> for that record, and
  \<^verbatim>\<open>serializeUser\<close> makes of it the principal with exactly its \<^verbatim>\<open>id\<close> and \<^verbatim>\<open>name\<close>.
\<close>

theorem verify_accepts_stored_credentials:
  assumes "fault db = None" and "unique_names db" and "u \<in> set (users db)"
    and "username = user_name u"
    and "calcHash scr (Str password) (user_salt u) = Inr (user_password u)"
  shows "verify scr db username password = CbUser u \<and>
         serializeUser u = Inr \<lparr>principal_id = user_id u, principal_name = user_name u\<rparr>"
proof -
  from assms(1-4) have "findUnique db username = Inr (Some u)"
    by (simp add: findUnique_stored)
  then have "verify scr db username password = CbUser u"
    using assms(5) by (simp add: verify_found)
  then show ?thesis by (simp add: serializeUser_def)
qed

theorem verify_accepts_stored_credentials_witness:
  "fault sample_db = None \<and> unique_names sample_db \<and> alice \<in> set (users sample_db) \<and>
   calcHash sample_scrypt (Str ''secret'') (user_salt alice) = Inr (user_password alice) \<and>
   verify sample_scrypt sample_db ''alice'' ''secret'' = CbUser alice \<and>
   serializeUser alice = Inr \<lparr>principal_id = 1, principal_name = ''alice''\<rparr>"
proof -
  have 1: "fault sample_db = None" by (simp add: sample_db_def)
  have 2: "unique_names sample_db"
    by (simp add: sample_db_def unique_names_def alice_def bob_def)
  have 3: "alice \<in> set (users sample_db)" by (simp add: sample_db_def)
  have 4: "''alice'' = user_name alice" by (simp add: alice_def)
  have 5: "calcHash sample_scrypt (Str ''secret'') (user_salt alice) = Inr (user_password alice)"
    by (simp add: sample_scrypt_def alice_def)
  have 6: "user_id alice = 1" by (simp add: alice_def)
  from verify_accepts_stored_credentials [OF 1 2 3 4 5] 1 2 3 5 6 show ?thesis
    by (simp add: 4 [symmetric])
qed

text \<open>
  Claim C2. For a submitted username and password, the result of the verify callback when
  no record has that name is the same value, \<^verbatim>\<open>cb(null, false, {message})\<close> with the same
  message, as its result when the record exists and the comparison finds the recomputed
  digest different from the stored one; and no rejection of the callback carries any
  other message. (The comparison answers only for digests of one length; claim C10 is
  the case of two lengths.)
\<close>

theorem rejections_indistinguishable:
  assumes "findUnique db1 username = Inr None"
    and "findUnique db2 username = Inr (Some u)"
    and "calcHash scr (Str password) (user_salt u) = Inr h"
    and "length h = length (user_password u)" and "h \<noteq> user_password u"
  shows "verify scr db1 username password = verify scr db2 username password \<and>
         verify scr db2 username password = CbFalse credentials_message \<and>
         (verify scr db username' password' = CbFalse message \<longrightarrow>
            message = credentials_message)"
proof -
  from assms have "verify scr db2 username password = CbFalse credentials_message"
    by (simp add: verify_found)
  moreover from assms(1) have "verify scr db1 username password = CbFalse credentials_message"
    by (rule verify_not_found)
  moreover have "verify scr db username' password' = CbFalse message \<longrightarrow>
      message = credentials_message"
    by (simp add: verify_def split: sum.splits option.splits if_splits)
  ultimately show ?thesis by simp
qed

theorem rejections_indistinguishable_witness:
  "findUnique (sample_db\<lparr>users := [bob]\<rparr>) ''alice'' = Inr None \<and>
   findUnique sample_db ''alice'' = Inr (Some alice) \<and>
   calcHash sample_scrypt (Str ''wrong'') (user_salt alice) = Inr [0, 7, 5] \<and>
   length [0 :: 8 word, 7, 5] = length (user_password alice) \<and>
   [0, 7, 5] \<noteq> user_password alice \<and>
   verify sample_scrypt (sample_db\<lparr>users := [bob]\<rparr>) ''alice'' ''wrong'' =
     verify sample_scrypt sample_db ''alice'' ''wrong'' \<and>
   verify sample_scrypt sample_db ''alice'' ''wrong'' = CbFalse credentials_message"
proof -
  have 1: "findUnique (sample_db\<lparr>users := [bob]\<rparr>) ''alice'' = Inr None"
    by (simp add: sample_db_def findUnique_def bob_def)
  have 2: "findUnique sample_db ''alice'' = Inr (Some alice)"
    by (simp add: sample_db_def findUnique_def alice_def)
  have 3: "calcHash sample_scrypt (Str ''wrong'') (user_salt alice) = Inr [0, 7, 5]"
    by (simp add: sample_scrypt_def alice_def)
  have 4: "length [0 :: 8 word, 7, 5] = length (user_password alice)"
    by (simp add: alice_def)
  have 5: "[0, 7, 5] \<noteq> user_password alice"
    by (simp add: alice_def)
  from rejections_indistinguishable
         [OF 1 2 3 4 5, where db = sample_db and username' = "''alice''"
            and password' = "''wrong''" and message = credentials_message]
       1 2 3 4 5
  show ?thesis by simp
qed

text \<open>
  Claim C3. Restoring from the serialized form of a user gives the principal with the
  user's \<^verbatim>\<open>id\<close> and \<^verbatim>\<open>name\<close>, and \<^verbatim>\<open>deserializeUser\<close> is the identity: it returns the stored
  value and has no access to the database.
\<close>

theorem principal_roundtrip:
  "(case serializeUser u of Inl e \<Rightarrow> Inl e | Inr p \<Rightarrow> deserializeUser p) =
     Inr \<lparr>principal_id = user_id u, principal_name = user_name u\<rparr> \<and>
   deserializeUser stored = Inr stored"
  by (simp add: serializeUser_def deserializeUser_def)

text \<open>
  Claim C7. Whatever is thrown during verification (by the lookup when the store is at
  fault, by \<^verbatim>\<open>calcHash\<close>, or by the comparison) reaches the caller as \<^verbatim>\<open>cb(e)\<close> with that very
  exception, which is never the rejection \<^verbatim>\<open>cb(null, false, {message})\<close>.
\<close>

theorem verify_propagates_faults:
  "(fault db = Some e \<longrightarrow> verify scr db username password = CbError e) \<and>
   (findUnique db username = Inr (Some u) \<and>
    calcHash scr (Str password) (user_salt u) = Inl e \<longrightarrow>
      verify scr db username password = CbError e) \<and>
   (findUnique db username = Inr (Some u) \<and>
    calcHash scr (Str password) (user_salt u) = Inr h \<and>
    timingSafeEqual (user_password u) h = Inl e \<longrightarrow>
      verify scr db username password = CbError e) \<and>
   CbError e \<noteq> CbFalse message"
  by (auto simp: verify_def findUnique_fault)

theorem verify_propagates_faults_witness:
  "fault (sample_db\<lparr>fault := Some (Thrown ''connection refused'')\<rparr>) =
     Some (Thrown ''connection refused'') \<and>
   verify sample_scrypt (sample_db\<lparr>fault := Some (Thrown ''connection refused'')\<rparr>)
     ''alice'' ''secret'' = CbError (Thrown ''connection refused'') \<and>
   findUnique sample_db ''alice'' = Inr (Some alice) \<and>
   calcHash sample_scrypt (Str []) (user_salt alice) = Inl (Thrown ''empty password'') \<and>
   verify sample_scrypt sample_db ''alice'' [] = CbError (Thrown ''empty password'') \<and>
   findUnique sample_db ''bob'' = Inr (Some bob) \<and>
   calcHash sample_scrypt (Str ''secret'') (user_salt bob) = Inr [1, 7, 6] \<and>
   timingSafeEqual (user_password bob) [1, 7, 6] = Inl ERR_CRYPTO_TIMING_SAFE_EQUAL_LENGTH \<and>
   verify sample_scrypt sample_db ''bob'' ''secret'' =
     CbError ERR_CRYPTO_TIMING_SAFE_EQUAL_LENGTH \<and>
   (CbError (Thrown ''connection refused'') :: int cb_result) \<noteq> CbFalse credentials_message"
proof -
  let ?down = "sample_db\<lparr>fault := Some (Thrown ''connection refused'')\<rparr>"
  have 1: "fault ?down = Some (Thrown ''connection refused'')" by simp
  have 2: "findUnique sample_db ''alice'' = Inr (Some alice)"
    by (simp add: sample_db_def findUnique_def alice_def)
  have 3: "calcHash sample_scrypt (Str []) (user_salt alice) = Inl (Thrown ''empty password'')"
    by (simp add: sample_scrypt_def)
  have 4: "findUnique sample_db ''bob'' = Inr (Some bob)"
    by (simp add: sample_db_def findUnique_def alice_def bob_def)
  have 5: "calcHash sample_scrypt (Str ''secret'') (user_salt bob) = Inr [1, 7, 6]"
    by (simp add: sample_scrypt_def bob_def)
  have 6: "timingSafeEqual (user_password bob) [1, 7, 6] =
      Inl ERR_CRYPTO_TIMING_SAFE_EQUAL_LENGTH"
    by (simp add: timingSafeEqual_def bob_def)
  from verify_propagates_faults
         [where db = ?down and e = "Thrown ''connection refused''" and scr = sample_scrypt
            and username = "''alice''" and password = "''secret''"
            and message = credentials_message] 1
  have a: "verify sample_scrypt ?down ''alice'' ''secret'' = CbError (Thrown ''connection refused'')"
    and d: "(CbError (Thrown ''connection refused'') :: int cb_result) \<noteq>
      CbFalse credentials_message"
    by simp_all
  from verify_propagates_faults
         [where db = sample_db and e = "Thrown ''empty password''" and scr = sample_scrypt
            and username = "''alice''" and password = "[]" and u = alice] 2 3
  have b: "verify sample_scrypt sample_db ''alice'' [] = CbError (Thrown ''empty password'')"
    by simp
  from verify_propagates_faults
         [where db = sample_db and e = ERR_CRYPTO_TIMING_SAFE_EQUAL_LENGTH
            and scr = sample_scrypt and username = "''bob''" and password = "''secret''"
            and u = bob and h = "[1, 7, 6]"] 4 5 6
  have c: "verify sample_scrypt sample_db ''bob'' ''secret'' =
      CbError ERR_CRYPTO_TIMING_SAFE_EQUAL_LENGTH"
    by simp
  from 1 2 3 4 5 6 a b c d show ?thesis by simp
qed

text \<open>
  Claim C10. When the stored digest of the record found and the recomputed digest differ
  in length, the verify callback ends with \<^verbatim>\<open>cb(e)\<close>, \<open>e\<close> the \<^verbatim>\<open>RangeError\<close> of the
  comparison, and not with the rejection of wrong credentials.
\<close>

theorem verify_length_mismatch_is_error:
  assumes "findUnique db username = Inr (Some u)"
    and "calcHash scr (Str password) (user_salt u) = Inr h"
    and "length (user_password u) \<noteq> length h"
  shows "verify scr db username password = CbError ERR_CRYPTO_TIMING_SAFE_EQUAL_LENGTH \<and>
         verify scr db username password \<noteq> CbFalse credentials_message"
  using assms by (simp add: verify_found)

theorem verify_length_mismatch_is_error_witness:
  "findUnique sample_db ''bob'' = Inr (Some bob) \<and>
   calcHash sample_scrypt (Str ''wrong'') (user_salt bob) = Inr [1, 7, 5] \<and>
   length (user_password bob) \<noteq> length [1 :: 8 word, 7, 5] \<and>
   verify sample_scrypt sample_db ''bob'' ''wrong'' = CbError ERR_CRYPTO_TIMING_SAFE_EQUAL_LENGTH"
  using verify_length_mismatch_is_error
    [of sample_db "''bob''" bob sample_scrypt "''wrong''" "[1, 7, 5]"]
  by (simp add: sample_db_def findUnique_def alice_def bob_def sample_scrypt_def)

subsection \<open>Signup\<close>

text \<open>
  Claim C4. When the validation chain reports an error, the signup handler renders the
  signup form with the list of the errors and the submitted \<^verbatim>\<open>name\<close>, \<^verbatim>\<open>email\<close> and \<^verbatim>\<open>age\<close>,
  and leaves the database and the entropy as they were; when the request has no name,
  the list holds the error of the field \<^verbatim>\<open>name\<close>.
\<close>

theorem signup_refused_redisplays_form:
  assumes "validationResult isEmail req \<noteq> []"
  shows "post_signup scr isEmail unary_plus req w =
           (Render ''users/signup''
              \<lparr>view_title = ''Users/Signup'', view_name = body req ''name'',
               view_email = body req ''email'', view_age = body req ''age'',
               view_messages = validationResult isEmail req\<rparr>, w) \<and>
         (absent req ''name'' \<longrightarrow>
            \<lparr>error_field = ''name'', error_msg = name_message, error_value = Undefined,
             error_location = ''body''\<rparr> \<in> set (validationResult isEmail req))"
  using assms
  by (simp add: post_signup_refused validationResult_def check_absent notEmpty_def)

theorem signup_refused_redisplays_form_witness:
  "absent (form Undefined (Str ''secret'') (Str ''carol@example.com'') (Str ''42'')) ''name'' \<and>
   validationResult sample_isEmail
       (form Undefined (Str ''secret'') (Str ''carol@example.com'') (Str ''42'')) =
     [\<lparr>error_field = ''name'', error_msg = name_message, error_value = Undefined,
       error_location = ''body''\<rparr>] \<and>
   post_signup sample_scrypt sample_isEmail sample_unary_plus
       (form Undefined (Str ''secret'') (Str ''carol@example.com'') (Str ''42'')) sample_world =
     (Render ''users/signup''
        \<lparr>view_title = ''Users/Signup'', view_name = Undefined,
         view_email = Str ''carol@example.com'', view_age = Str ''42'',
         view_messages =
           [\<lparr>error_field = ''name'', error_msg = name_message, error_value = Undefined,
             error_location = ''body''\<rparr>]\<rparr>,
      sample_world)"
proof -
  let ?req = "form Undefined (Str ''secret'') (Str ''carol@example.com'') (Str ''42'')"
  have 1: "validationResult sample_isEmail ?req =
     [\<lparr>error_field = ''name'', error_msg = name_message, error_value = Undefined,
       error_location = ''body''\<rparr>]"
    by (simp add: sample_chain)
  then have 2: "validationResult sample_isEmail ?req \<noteq> []"
    by simp
  have 3: "absent ?req ''name''"
    by (simp add: absent_def form_def no_fields_def)
  have 4: "body ?req ''name'' = Undefined" "body ?req ''email'' = Str ''carol@example.com''"
    "body ?req ''age'' = Str ''42''"
    by (simp_all add: form_def)
  from signup_refused_redisplays_form
         [OF 2, of sample_scrypt sample_unary_plus sample_world] 1 3 4
  show ?thesis by simp
qed

text \<open>
  Claim C5, amended. For a signup request that passes validation, the handler generates
  a fresh salt (a new draw of \<^verbatim>\<open>generateSalt\<close>) and computes \<^verbatim>\<open>calcHash(password, salt)\<close> with
  that same salt; when the hash is computed and \<^verbatim>\<open>prisma.user.create\<close> accepts the record
  (the name is a string that is not taken, the schema admits the record and the store
  answers), exactly one row is appended, holding the submitted name, the digest and that
  salt (with the email and the converted age), and the response redirects to
  \<^verbatim>\<open>/users/login\<close>.
\<close>

theorem signup_registers_user:
  assumes "validationResult isEmail req = []"
    and "calcHash scr (body req ''password'') (generateSalt scr (salts_drawn w)) = Inr digest"
    and "body req ''name'' = Str name"
    and "schema (store w)
           \<lparr>data_name = Str name, data_password = digest,
            data_salt = generateSalt scr (salts_drawn w), data_email = body req ''email'',
            data_age = unary_plus (body req ''age'')\<rparr>"
    and "fault (store w) = None"
    and "name \<notin> user_name ` set (users (store w))"
  shows "post_signup scr isEmail unary_plus req w =
     (Redirect ''/users/login'',
      w\<lparr>salts_drawn := Suc (salts_drawn w),
        store := (store w)
          \<lparr>users := users (store w) @
             [\<lparr>user_id = next_id (store w), user_name = name,
               user_password = digest, user_salt = generateSalt scr (salts_drawn w),
               user_email = body req ''email'',
               user_age = unary_plus (body req ''age'')\<rparr>],
           next_id := Suc (next_id (store w))\<rparr>\<rparr>)"
proof -
  let ?salt = "generateSalt scr (salts_drawn w)"
  let ?d = "\<lparr>data_name = Str name, data_password = digest, data_salt = ?salt,
             data_email = body req ''email'', data_age = unary_plus (body req ''age'')\<rparr>"
  from assms(4-6) have "create (store w) ?d =
     Inr (\<lparr>user_id = next_id (store w), user_name = name, user_password = digest,
           user_salt = ?salt, user_email = body req ''email'',
           user_age = unary_plus (body req ''age'')\<rparr>,
          (store w)\<lparr>users := users (store w) @
                 [\<lparr>user_id = next_id (store w), user_name = name,
                   user_password = digest, user_salt = ?salt,
                   user_email = body req ''email'',
                   user_age = unary_plus (body req ''age'')\<rparr>],
             next_id := Suc (next_id (store w))\<rparr>)"
    using create_accepts [of ?d name "store w"] by simp
  with assms(1-3) show ?thesis
    by (simp add: post_signup_accepted Let_def)
qed

theorem signup_registers_user_witness:
  "validationResult sample_isEmail carol_form = [] \<and>
   calcHash sample_scrypt (body carol_form ''password'') (generateSalt sample_scrypt 2) =
     Inr [2, 7, 6] \<and>
   body carol_form ''name'' = Str ''carol'' \<and>
   fault (store sample_world) = None \<and>
   ''carol'' \<notin> user_name ` set (users (store sample_world)) \<and>
   post_signup sample_scrypt sample_isEmail sample_unary_plus carol_form sample_world =
     (Redirect ''/users/login'',
      \<lparr>store = \<lparr>users = [alice, bob,
          \<lparr>user_id = 3, user_name = ''carol'', user_password = [2, 7, 6], user_salt = [2, 7],
           user_email = Str ''carol@example.com'', user_age = 42\<rparr>],
          next_id = 4, fault = None, schema = (\<lambda>d. True)\<rparr>,
       salts_drawn = 3\<rparr>)"
proof -
  have 1: "validationResult sample_isEmail carol_form = []"
    by (simp add: sample_chain carol_form_def)
  have 2: "calcHash sample_scrypt (body carol_form ''password'')
             (generateSalt sample_scrypt (salts_drawn sample_world)) = Inr [2, 7, 6]"
    by (simp add: sample_scrypt_def carol_form_def form_def sample_world_def)
  have 3: "body carol_form ''name'' = Str ''carol''"
    by (simp add: carol_form_def form_def)
  have 4: "schema (store sample_world)
           \<lparr>data_name = Str ''carol'', data_password = [2, 7, 6],
            data_salt = generateSalt sample_scrypt (salts_drawn sample_world),
            data_email = body carol_form ''email'',
            data_age = sample_unary_plus (body carol_form ''age'')\<rparr>"
    by (simp add: sample_world_def sample_db_def)
  have 5: "fault (store sample_world) = None"
    by (simp add: sample_world_def sample_db_def)
  have 6: "''carol'' \<notin> user_name ` set (users (store sample_world))"
    by (simp add: sample_world_def sample_db_def alice_def bob_def)
  have 7: "sample_unary_plus (body carol_form ''age'') = 42"
    "body carol_form ''email'' = Str ''carol@example.com''"
    "generateSalt sample_scrypt 2 = [2, 7]"
    by (simp_all add: sample_unary_plus_def carol_form_def form_def sample_scrypt_def)
  have 8: "salts_drawn sample_world = 2"
    by (simp add: sample_world_def)
  from signup_registers_user
         [where unary_plus = sample_unary_plus and req = carol_form and w = sample_world
            and scr = sample_scrypt and isEmail = sample_isEmail
            and digest = "[2, 7, 6]" and name = "''carol''", OF 1 2 3 4 5 6]
       1 2 3 5 6 7 8
  show ?thesis by (simp add: sample_world_def sample_db_def)
qed

text \<open>
  The claim C5 as the spec states it fails for a name that is taken: the request passes
  validation, \<^verbatim>\<open>create\<close> throws, nothing is stored and nothing redirects.
\<close>

theorem signup_taken_name_counterexample:
  "validationResult sample_isEmail
     (form (Str ''bob'') (Str ''secret'') (Str ''carol@example.com'') (Str ''42'')) = [] \<and>
   post_signup sample_scrypt sample_isEmail sample_unary_plus
     (form (Str ''bob'') (Str ''secret'') (Str ''carol@example.com'') (Str ''42''))
     sample_world =
     (Rejected P2002, sample_world\<lparr>salts_drawn := 3\<rparr>) \<and>
   users (store (sample_world\<lparr>salts_drawn := 3\<rparr>)) = [alice, bob]"
  by (simp add: post_signup_def sample_chain sample_world_def sample_db_def
      alice_def bob_def sample_scrypt_def create_def Let_def)

text \<open>
  Claim C6, amended. The fields \<^verbatim>\<open>email\<close> and \<^verbatim>\<open>age\<close> are required on signup. For every signup
  request in which they are absent (from the body, the cookies, the headers, the route
  parameters and the query), whatever its other fields and so also when the name and the
  password are present and non-empty, validation fails: the result lists the field
  \<^verbatim>\<open>age\<close> (and the field \<^verbatim>\<open>email\<close>, \<^verbatim>\<open>isEmail\<close> refusing the empty string), the signup form is
  shown again, and no account is created.
\<close>

theorem signup_requires_email_and_age:
  assumes "absent req ''email''" and "absent req ''age''"
  shows "\<lparr>error_field = ''age'', error_msg = age_message, error_value = Undefined,
          error_location = ''body''\<rparr> \<in> set (validationResult isEmail req) \<and>
         (\<not> isEmail [] \<longrightarrow>
            \<lparr>error_field = ''email'', error_msg = email_message, error_value = Undefined,
             error_location = ''body''\<rparr> \<in> set (validationResult isEmail req)) \<and>
         post_signup scr isEmail unary_plus req w =
           (Render ''users/signup''
              \<lparr>view_title = ''Users/Signup'', view_name = body req ''name'',
               view_email = Undefined, view_age = Undefined,
               view_messages = validationResult isEmail req\<rparr>, w)"
proof -
  have age: "check ''age'' age_message isInt req =
      [\<lparr>error_field = ''age'', error_msg = age_message, error_value = Undefined,
        error_location = ''body''\<rparr>]"
    using assms(2) by (simp add: check_absent isInt_Nil)
  have email: "\<not> isEmail [] \<Longrightarrow> check ''email'' email_message isEmail req =
      [\<lparr>error_field = ''email'', error_msg = email_message, error_value = Undefined,
        error_location = ''body''\<rparr>]"
    using assms(1) by (simp add: check_absent)
  from age have listed: "\<lparr>error_field = ''age'', error_msg = age_message,
      error_value = Undefined, error_location = ''body''\<rparr> \<in> set (validationResult isEmail req)"
    by (simp add: validationResult_def)
  then have refused: "validationResult isEmail req \<noteq> []"
    by auto
  from assms have "body req ''email'' = Undefined" and "body req ''age'' = Undefined"
    by (simp_all add: absent_def)
  with refused have "post_signup scr isEmail unary_plus req w =
           (Render ''users/signup''
              \<lparr>view_title = ''Users/Signup'', view_name = body req ''name'',
               view_email = Undefined, view_age = Undefined,
               view_messages = validationResult isEmail req\<rparr>, w)"
    by (simp add: post_signup_refused)
  with listed email show ?thesis
    by (simp add: validationResult_def)
qed

theorem signup_requires_email_and_age_witness:
  "absent (form (Str ''carol'') (Str ''secret'') Undefined Undefined) ''email'' \<and>
   absent (form (Str ''carol'') (Str ''secret'') Undefined Undefined) ''age'' \<and>
   \<not> sample_isEmail [] \<and>
   \<lparr>error_field = ''age'', error_msg = age_message, error_value = Undefined,
     error_location = ''body''\<rparr>
     \<in> set (validationResult sample_isEmail
              (form (Str ''carol'') (Str ''secret'') Undefined Undefined)) \<and>
   \<lparr>error_field = ''email'', error_msg = email_message, error_value = Undefined,
     error_location = ''body''\<rparr>
     \<in> set (validationResult sample_isEmail
              (form (Str ''carol'') (Str ''secret'') Undefined Undefined)) \<and>
   post_signup sample_scrypt sample_isEmail sample_unary_plus
       (form (Str ''carol'') (Str ''secret'') Undefined Undefined) sample_world =
     (Render ''users/signup''
        \<lparr>view_title = ''Users/Signup'', view_name = Str ''carol'',
         view_email = Undefined, view_age = Undefined,
         view_messages = validationResult sample_isEmail
           (form (Str ''carol'') (Str ''secret'') Undefined Undefined)\<rparr>,
      sample_world)"
proof -
  let ?req = "form (Str ''carol'') (Str ''secret'') Undefined Undefined"
  have 1: "absent ?req ''email''" and 2: "absent ?req ''age''"
    by (simp_all add: absent_def form_def no_fields_def)
  have 3: "\<not> sample_isEmail []"
    by (simp add: sample_isEmail_def)
  have 4: "body ?req ''name'' = Str ''carol''"
    by (simp add: form_def)
  from signup_requires_email_and_age
         [OF 1 2, of sample_isEmail sample_scrypt sample_unary_plus sample_world] 1 2 3 4
  show ?thesis by simp
qed

text \<open>
  The claim C6 as the spec states it fails for a request with a name and a password and
  neither email nor age: the chain reports both fields and nothing is stored.
\<close>

theorem signup_without_email_and_age_counterexample:
  "post_signup sample_scrypt sample_isEmail sample_unary_plus
     (form (Str ''carol'') (Str ''secret'') Undefined Undefined) sample_world =
     (Render ''users/signup''
        \<lparr>view_title = ''Users/Signup'', view_name = Str ''carol'',
         view_email = Undefined, view_age = Undefined,
         view_messages =
           [\<lparr>error_field = ''email'', error_msg = email_message, error_value = Undefined,
             error_location = ''body''\<rparr>,
            \<lparr>error_field = ''age'', error_msg = age_message, error_value = Undefined,
             error_location = ''body''\<rparr>]\<rparr>,
      sample_world)"
  by (simp add: post_signup_def sample_chain Let_def)

subsection \<open>Password material\<close>

text \<open>
  Claim C8. The plaintext password reaches neither the stored state nor the session.
  After a successful signup the new row's password column is \<^verbatim>\<open>calcHash(password, salt)\<close>
  for the row's salt, and the outcome and the state after a signup are the same for two
  passwords with the same digest; the verify callback compares the stored digest with
  the recomputed one, so that its result is the same for two passwords with the same
  digest under the stored salt; and the serialized principal does not depend on the
  password and salt columns.
\<close>

theorem password_only_through_digest:
  "(post_signup scr isEmail unary_plus req w = (Redirect path, w') \<longrightarrow>
      (\<exists>u. users (store w') = users (store w) @ [u] \<and>
           calcHash scr (body req ''password'') (user_salt u) = Inr (user_password u))) \<and>
   (p1 \<noteq> [] \<and> p2 \<noteq> [] \<and>
    calcHash scr (Str p1) (generateSalt scr (salts_drawn w)) =
      calcHash scr (Str p2) (generateSalt scr (salts_drawn w)) \<longrightarrow>
      post_signup scr isEmail unary_plus (req\<lparr>body := (body req)(''password'' := Str p1)\<rparr>) w =
      post_signup scr isEmail unary_plus (req\<lparr>body := (body req)(''password'' := Str p2)\<rparr>) w) \<and>
   ((\<forall>u. findUnique db username = Inr (Some u) \<longrightarrow>
         calcHash scr (Str p1) (user_salt u) = calcHash scr (Str p2) (user_salt u)) \<longrightarrow>
      verify scr db username p1 = verify scr db username p2) \<and>
   serializeUser (u0\<lparr>user_password := d, user_salt := s\<rparr>) = serializeUser u0"
proof (intro conjI impI)
  assume "post_signup scr isEmail unary_plus req w = (Redirect path, w')"
  then show "\<exists>u. users (store w') = users (store w) @ [u] \<and>
           calcHash scr (body req ''password'') (user_salt u) = Inr (user_password u)"
    using post_signup_registered by blast
next
  assume "p1 \<noteq> [] \<and> p2 \<noteq> [] \<and>
    calcHash scr (Str p1) (generateSalt scr (salts_drawn w)) =
      calcHash scr (Str p2) (generateSalt scr (salts_drawn w))"
  then show "post_signup scr isEmail unary_plus (req\<lparr>body := (body req)(''password'' := Str p1)\<rparr>) w =
      post_signup scr isEmail unary_plus (req\<lparr>body := (body req)(''password'' := Str p2)\<rparr>) w"
    by (intro post_signup_password) simp_all
next
  assume "\<forall>u. findUnique db username = Inr (Some u) \<longrightarrow>
         calcHash scr (Str p1) (user_salt u) = calcHash scr (Str p2) (user_salt u)"
  then show "verify scr db username p1 = verify scr db username p2"
    by (intro verify_password) simp
next
  show "serializeUser (u0\<lparr>user_password := d, user_salt := s\<rparr>) = serializeUser u0"
    by (simp add: serializeUser_def)
qed

theorem password_only_through_digest_witness:
  "post_signup sample_scrypt sample_isEmail sample_unary_plus carol_form sample_world =
     (Redirect ''/users/login'',
      \<lparr>store = \<lparr>users = [alice, bob,
          \<lparr>user_id = 3, user_name = ''carol'', user_password = [2, 7, 6], user_salt = [2, 7],
           user_email = Str ''carol@example.com'', user_age = 42\<rparr>],
          next_id = 4, fault = None, schema = (\<lambda>d. True)\<rparr>,
       salts_drawn = 3\<rparr>) \<and>
   calcHash sample_scrypt (body carol_form ''password'') [2, 7] = Inr [2, 7, 6] \<and>
   calcHash sample_scrypt (Str ''secret'') (generateSalt sample_scrypt 2) =
     calcHash sample_scrypt (Str ''hunter'') (generateSalt sample_scrypt 2) \<and>
   post_signup sample_scrypt sample_isEmail sample_unary_plus
       (carol_form\<lparr>body := (body carol_form)(''password'' := Str ''secret'')\<rparr>) sample_world =
     post_signup sample_scrypt sample_isEmail sample_unary_plus
       (carol_form\<lparr>body := (body carol_form)(''password'' := Str ''hunter'')\<rparr>) sample_world \<and>
   verify sample_scrypt sample_db ''alice'' ''secret'' =
     verify sample_scrypt sample_db ''alice'' ''hunter'' \<and>
   serializeUser (alice\<lparr>user_password := [], user_salt := []\<rparr>) = serializeUser alice"
proof -
  let ?w' = "\<lparr>store = \<lparr>users = [alice, bob,
          \<lparr>user_id = 3, user_name = ''carol'', user_password = [2, 7, 6], user_salt = [2, 7],
           user_email = Str ''carol@example.com'', user_age = 42\<rparr>],
          next_id = 4, fault = None, schema = (\<lambda>d. True)\<rparr>,
       salts_drawn = 3\<rparr>"
  have run: "post_signup sample_scrypt sample_isEmail sample_unary_plus carol_form sample_world =
     (Redirect ''/users/login'', ?w')"
    by (simp add: post_signup_def sample_chain carol_form_def sample_world_def sample_db_def
        alice_def bob_def sample_scrypt_def create_def Let_def sample_unary_plus_def)
  have hash: "calcHash sample_scrypt (body carol_form ''password'') [2, 7] = Inr [2, 7, 6]"
    by (simp add: sample_scrypt_def carol_form_def form_def)
  have same: "calcHash sample_scrypt (Str ''secret'') (generateSalt sample_scrypt 2) =
     calcHash sample_scrypt (Str ''hunter'') (generateSalt sample_scrypt 2)"
    by (simp add: sample_scrypt_def)
  have same_all: "\<forall>u. findUnique sample_db ''alice'' = Inr (Some u) \<longrightarrow>
     calcHash sample_scrypt (Str ''secret'') (user_salt u) =
     calcHash sample_scrypt (Str ''hunter'') (user_salt u)"
    by (simp add: sample_scrypt_def)
  have drawn: "salts_drawn sample_world = 2"
    by (simp add: sample_world_def)
  from password_only_through_digest
    [where scr = sample_scrypt and isEmail = sample_isEmail
       and unary_plus = sample_unary_plus and req = carol_form
       and w = sample_world and path = "''/users/login''" and w' = ?w'
       and ?p1.0 = "''secret''" and ?p2.0 = "''hunter''" and db = sample_db
       and username = "''alice''" and ?u0.0 = alice and d = "[]" and s = "[]"]
    run hash same same_all drawn
  show ?thesis by simp
qed

end
